theory Spec2Isabelle
  imports Main
begin

section \<open>The query-builder values the relation compiler works on\<close>

text \<open>
  The relation compiler of kysely-relations only composes values of the host query
  builder: it starts a query at a table, adds selections and filters, wraps a query in a
  JSON aggregate and gives the aggregate an alias. The builder is immutable, every call
  returns a new builder, so a builder value is modelled by the term of the calls that made
  it. Expression nodes the compiler is handed from outside are opaque: they are values of
  a type parameter \<open>'x\<close>. The one expression the compiler creates itself is the column
  reference \<open>sql.ref(name)\<close>.
\<close>

datatype 'x expression =
    SqlRef string
  | Opaque 'x

text \<open>
  \<open>SelectFrom t\<close> is \<open>expressionBuilder().selectFrom(t)\<close>, \<open>Select q c\<close> is
  \<open>q.select(c)\<close>, \<open>SelectAll q\<close> is \<open>q.selectAll()\<close> and \<open>Where q c op v\<close> is
  \<open>q.where(c, op, v)\<close>, whose right operand is an expression or, when a callback
  returning a query is passed, that sub-query.
\<close>

datatype 'x operand =
    Expr "'x expression"
  | Subquery "'x query"
and 'x query =
    SelectFrom string
  | Select "'x query" string
  | SelectAll "'x query"
  | Where "'x query" string string "'x operand"

text \<open>
  \<open>jsonObjectFrom(q)\<close> and \<open>jsonArrayFrom(q)\<close> of the builder's helpers, and
  \<open>e.as(name)\<close>.
\<close>

datatype 'x aggregate =
    JsonObjectFrom "'x query"
  | JsonArrayFrom "'x query"

datatype 'x aliased = As "'x aggregate" string

section \<open>Relation configurations\<close>

record relationConfig =
  target :: string
  column :: string
  reference :: string

record throughRelationConfig = relationConfig +
  through :: string
  throughColumn :: string
  throughReference :: string

type_synonym 'x customizeQueryFunction = "'x query \<Rightarrow> 'x query"

type_synonym 'x selectFunction = "'x query \<Rightarrow> 'x query"

section \<open>The relation descriptor resolver\<close>

text \<open>
  \<open>customizeQuery ?? ((v) => v)\<close>: an absent (null or undefined) customize function is
  \<open>None\<close>. The base query is built when the factory is called; the function returned
  adds the correlation filter to it.
\<close>

definition relationQueryFactory ::
  "'z relationConfig_scheme \<Rightarrow> 'x customizeQueryFunction option \<Rightarrow>
   'x expression \<Rightarrow> 'x query" where
  "relationQueryFactory config customizeQuery =
     (let customizeQuery = (case customizeQuery of None \<Rightarrow> (\<lambda>v. v) | Some f \<Rightarrow> f);
          baseQuery = customizeQuery (SelectFrom (target config))
      in (\<lambda>expression. Where baseQuery (reference config) ''='' (Expr expression)))"

definition throughRelationQueryFactory ::
  "'z throughRelationConfig_scheme \<Rightarrow> 'x customizeQueryFunction option \<Rightarrow>
   'x expression \<Rightarrow> 'x query" where
  "throughRelationQueryFactory config customizeQuery =
     (let customizeQuery = (case customizeQuery of None \<Rightarrow> (\<lambda>v. v) | Some f \<Rightarrow> f);
          baseQuery = customizeQuery (SelectFrom (target config));
          baseSubQuery = Select (SelectFrom (through config)) (throughReference config)
      in (\<lambda>expression.
            Where baseQuery (reference config) ''in''
              (Subquery (Where baseSubQuery (throughColumn config) ''='' (Expr expression)))))"

section \<open>The relation compiler\<close>

text \<open>
  Each constructor resolves the correlated query when it is called, with
  \<open>sql.ref(config.column)\<close> as the correlation expression. The function it returns
  takes the column selector and returns the compiled relation, a function written with no
  parameter: the expression-building context \<open>eb\<close> it is called with is not used, so its
  type is left open.
\<close>

definition hasOne ::
  "string \<Rightarrow> 'z relationConfig_scheme \<Rightarrow> 'x customizeQueryFunction option \<Rightarrow>
   'x selectFunction \<Rightarrow> 'ctx \<Rightarrow> 'x aliased" where
  "hasOne relationName config customizeQuery =
     (let query = relationQueryFactory config customizeQuery;
          queryWithColumn = query (SqlRef (column config));
          include = (\<lambda>selectFunc. (\<lambda>eb. As (JsonObjectFrom (selectFunc queryWithColumn)) relationName))
      in include)"

definition hasOneNotNull ::
  "string \<Rightarrow> 'z relationConfig_scheme \<Rightarrow> 'x customizeQueryFunction option \<Rightarrow>
   'x selectFunction \<Rightarrow> 'ctx \<Rightarrow> 'x aliased" where
  "hasOneNotNull relationName config customizeQuery =
     (let query = relationQueryFactory config customizeQuery;
          queryWithColumn = query (SqlRef (column config));
          include = (\<lambda>selectFunc. (\<lambda>eb. As (JsonObjectFrom (selectFunc queryWithColumn)) relationName))
      in include)"

definition hasMany ::
  "string \<Rightarrow> 'z relationConfig_scheme \<Rightarrow> 'x customizeQueryFunction option \<Rightarrow>
   'x selectFunction \<Rightarrow> 'ctx \<Rightarrow> 'x aliased" where
  "hasMany relationName config configureQuery =
     (let query = relationQueryFactory config configureQuery;
          queryWithColumn = query (SqlRef (column config));
          include = (\<lambda>selectFunc. (\<lambda>eb. As (JsonArrayFrom (selectFunc queryWithColumn)) relationName))
      in include)"

definition hasManyThrough ::
  "string \<Rightarrow> 'z throughRelationConfig_scheme \<Rightarrow> 'x customizeQueryFunction option \<Rightarrow>
   'x selectFunction \<Rightarrow> 'ctx \<Rightarrow> 'x aliased" where
  "hasManyThrough relationName config configureQuery =
     (let query = throughRelationQueryFactory config configureQuery;
          queryWithColumn = query (SqlRef (column config));
          include = (\<lambda>selectFunc. (\<lambda>eb. As (JsonArrayFrom (selectFunc queryWithColumn)) relationName))
      in include)"

section \<open>The declaration entry point\<close>

text \<open>
  The object \<open>{ hasOne, hasOneNotNull, hasMany, hasManyThrough }\<close> handed to the
  caller's declaration function.
\<close>

record ('z, 'x, 'ctx) relationFunctions =
  fn_hasOne ::
    "string \<Rightarrow> 'z relationConfig_scheme \<Rightarrow> 'x customizeQueryFunction option \<Rightarrow>
     'x selectFunction \<Rightarrow> 'ctx \<Rightarrow> 'x aliased"
  fn_hasOneNotNull ::
    "string \<Rightarrow> 'z relationConfig_scheme \<Rightarrow> 'x customizeQueryFunction option \<Rightarrow>
     'x selectFunction \<Rightarrow> 'ctx \<Rightarrow> 'x aliased"
  fn_hasMany ::
    "string \<Rightarrow> 'z relationConfig_scheme \<Rightarrow> 'x customizeQueryFunction option \<Rightarrow>
     'x selectFunction \<Rightarrow> 'ctx \<Rightarrow> 'x aliased"
  fn_hasManyThrough ::
    "string \<Rightarrow> 'z throughRelationConfig_scheme \<Rightarrow> 'x customizeQueryFunction option \<Rightarrow>
     'x selectFunction \<Rightarrow> 'ctx \<Rightarrow> 'x aliased"

definition relations ::
  "string \<Rightarrow> (('z, 'x, 'ctx) relationFunctions \<Rightarrow> 'a) \<Rightarrow> 'a" where
  "relations table relationBuilder =
     relationBuilder
       \<lparr>fn_hasOne = hasOne, fn_hasOneNotNull = hasOneNotNull,
        fn_hasMany = hasMany, fn_hasManyThrough = hasManyThrough\<rparr>"

definition createRelationsBuilder ::
  "unit \<Rightarrow> string \<Rightarrow> (('z, 'x, 'ctx) relationFunctions \<Rightarrow> 'a) \<Rightarrow> 'a" where
  "createRelationsBuilder u = relations"

section \<open>Reading the parts of a correlated query\<close>

text \<open>
  The query a filter was added to last, and the sub-query that filter tests membership
  in.
\<close>

fun filteredQuery :: "'x query \<Rightarrow> 'x query option" where
  "filteredQuery (Where q c opr v) = Some q"
| "filteredQuery q = None"

fun junctionQuery :: "'x query \<Rightarrow> 'x query option" where
  "junctionQuery (Where q c opr (Subquery s)) = Some s"
| "junctionQuery q = None"

section \<open>The compiler with callbacks that act on the program's state\<close>

text \<open>
  The customize function and the column selector are functions of the caller, and a
  JavaScript function may read and change state. To say when the compiler calls them, and
  what state it touches itself, the same source is read once more with the mutable state
  of the program passed along: a callback takes the state and returns the new one, and the
  compiler's own statements pass the state on in the order they run. The builder calls
  return new immutable values and leave the state alone. The resolver calls the customize
  function when it is called itself; the compiled relation calls the selector when it is
  invoked.
\<close>

type_synonym ('x, 'w) customizeQueryProcedure = "'x query \<Rightarrow> 'w \<Rightarrow> 'x query \<times> 'w"

type_synonym ('x, 'w) selectProcedure = "'x query \<Rightarrow> 'w \<Rightarrow> 'x query \<times> 'w"

definition pureCallback :: "('a \<Rightarrow> 'b) \<Rightarrow> 'a \<Rightarrow> 'w \<Rightarrow> 'b \<times> 'w" where
  "pureCallback f q w = (f q, w)"

definition relationQueryFactory_st ::
  "'z relationConfig_scheme \<Rightarrow> ('x, 'w) customizeQueryProcedure option \<Rightarrow> 'w \<Rightarrow>
   ('x expression \<Rightarrow> 'x query) \<times> 'w" where
  "relationQueryFactory_st config customizeQuery w =
     (let customizeQuery = (case customizeQuery of None \<Rightarrow> (\<lambda>v w. (v, w)) | Some f \<Rightarrow> f);
          (baseQuery, w') = customizeQuery (SelectFrom (target config)) w
      in ((\<lambda>expression. Where baseQuery (reference config) ''='' (Expr expression)), w'))"

definition throughRelationQueryFactory_st ::
  "'z throughRelationConfig_scheme \<Rightarrow> ('x, 'w) customizeQueryProcedure option \<Rightarrow> 'w \<Rightarrow>
   ('x expression \<Rightarrow> 'x query) \<times> 'w" where
  "throughRelationQueryFactory_st config customizeQuery w =
     (let customizeQuery = (case customizeQuery of None \<Rightarrow> (\<lambda>v w. (v, w)) | Some f \<Rightarrow> f);
          (baseQuery, w') = customizeQuery (SelectFrom (target config)) w;
          baseSubQuery = Select (SelectFrom (through config)) (throughReference config)
      in ((\<lambda>expression.
            Where baseQuery (reference config) ''in''
              (Subquery (Where baseSubQuery (throughColumn config) ''='' (Expr expression)))),
          w'))"

definition hasOne_st ::
  "string \<Rightarrow> 'z relationConfig_scheme \<Rightarrow> ('x, 'w) customizeQueryProcedure option \<Rightarrow> 'w \<Rightarrow>
   (('x, 'w) selectProcedure \<Rightarrow> 'ctx \<Rightarrow> 'w \<Rightarrow> 'x aliased \<times> 'w) \<times> 'w" where
  "hasOne_st relationName config customizeQuery w =
     (let (query, w') = relationQueryFactory_st config customizeQuery w;
          queryWithColumn = query (SqlRef (column config));
          include = (\<lambda>selectFunc. (\<lambda>eb w.
            (let (selected, w') = selectFunc queryWithColumn w
             in (As (JsonObjectFrom selected) relationName, w'))))
      in (include, w'))"

definition hasOneNotNull_st ::
  "string \<Rightarrow> 'z relationConfig_scheme \<Rightarrow> ('x, 'w) customizeQueryProcedure option \<Rightarrow> 'w \<Rightarrow>
   (('x, 'w) selectProcedure \<Rightarrow> 'ctx \<Rightarrow> 'w \<Rightarrow> 'x aliased \<times> 'w) \<times> 'w" where
  "hasOneNotNull_st relationName config customizeQuery w =
     (let (query, w') = relationQueryFactory_st config customizeQuery w;
          queryWithColumn = query (SqlRef (column config));
          include = (\<lambda>selectFunc. (\<lambda>eb w.
            (let (selected, w') = selectFunc queryWithColumn w
             in (As (JsonObjectFrom selected) relationName, w'))))
      in (include, w'))"

definition hasMany_st ::
  "string \<Rightarrow> 'z relationConfig_scheme \<Rightarrow> ('x, 'w) customizeQueryProcedure option \<Rightarrow> 'w \<Rightarrow>
   (('x, 'w) selectProcedure \<Rightarrow> 'ctx \<Rightarrow> 'w \<Rightarrow> 'x aliased \<times> 'w) \<times> 'w" where
  "hasMany_st relationName config configureQuery w =
     (let (query, w') = relationQueryFactory_st config configureQuery w;
          queryWithColumn = query (SqlRef (column config));
          include = (\<lambda>selectFunc. (\<lambda>eb w.
            (let (selected, w') = selectFunc queryWithColumn w
             in (As (JsonArrayFrom selected) relationName, w'))))
      in (include, w'))"

definition hasManyThrough_st ::
  "string \<Rightarrow> 'z throughRelationConfig_scheme \<Rightarrow> ('x, 'w) customizeQueryProcedure option \<Rightarrow> 'w \<Rightarrow>
   (('x, 'w) selectProcedure \<Rightarrow> 'ctx \<Rightarrow> 'w \<Rightarrow> 'x aliased \<times> 'w) \<times> 'w" where
  "hasManyThrough_st relationName config configureQuery w =
     (let (query, w') = throughRelationQueryFactory_st config configureQuery w;
          queryWithColumn = query (SqlRef (column config));
          include = (\<lambda>selectFunc. (\<lambda>eb w.
            (let (selected, w') = selectFunc queryWithColumn w
             in (As (JsonArrayFrom selected) relationName, w'))))
      in (include, w'))"



section \<open>The compiled relation as the specification words it\<close>








section \<open>The builder's filter call with its check of the column reference\<close>






section \<open>The value of an aliased aggregate\<close>

datatype 'r json =
    JsonNull
  | JsonObject 'r
  | JsonArray "'r list"

text \<open>
  Modelled from the spec: the two JSON aggregation helpers of the host query builder and
  the engine that runs the sub-query are external to the repository. The engine is the
  parameter \<open>rowsOf\<close>, the rows a sub-query returns for the enclosing row, in the
  engine's order. Object aggregation yields null if there are no rows and the row's
  selected shape if there is one; array aggregation yields the array of the rows, the
  empty array if there are none; the value is returned under the alias. (For more than
  one row the object aggregate is given the first row, as SQLite evaluates a scalar
  sub-query; nothing below depends on that case.)
\<close>

fun aggregateValue :: "('x query \<Rightarrow> 'r list) \<Rightarrow> 'x aggregate \<Rightarrow> 'r json" where
  "aggregateValue rowsOf (JsonObjectFrom q) =
     (case rowsOf q of [] \<Rightarrow> JsonNull | r # rest \<Rightarrow> JsonObject r)"
| "aggregateValue rowsOf (JsonArrayFrom q) = JsonArray (rowsOf q)"

fun relationValue :: "('x query \<Rightarrow> 'r list) \<Rightarrow> 'x aliased \<Rightarrow> string \<times> 'r json" where
  "relationValue rowsOf (As e name) = (name, aggregateValue rowsOf e)"

section \<open>An example engine and the scenarios of the specification\<close>

text \<open>
  Modelled from the spec: the engine that runs a query is external to the repository. The
  scenarios of the specification (a user with no profile, a user with one profile, a user
  with three posts, a post with two of three tags) are run on this small engine: a table
  is a list of rows in insertion order, a row lists its columns under their qualified
  names, a filter sees the row's columns and those of the enclosing rows, and filters
  apply before the selection whatever the order of the builder calls. Only the operators
  the resolver emits are understood, \<open>=\<close> against an expression and \<open>in\<close> against a
  sub-query; a comparison with NULL does not hold.
\<close>

datatype sqlValue = Null | Num int | Text string

type_synonym row = "(string \<times> sqlValue) list"

type_synonym database = "(string \<times> row list) list"

definition columnValue :: "row \<Rightarrow> string \<Rightarrow> sqlValue" where
  "columnValue r c = (case map_of r c of None \<Rightarrow> Null | Some v \<Rightarrow> v)"

fun expressionValue :: "row \<Rightarrow> sqlValue expression \<Rightarrow> sqlValue" where
  "expressionValue scope (SqlRef c) = columnValue scope c"
| "expressionValue scope (Opaque v) = v"

fun selections :: "'x query \<Rightarrow> string list option" where
  "selections (SelectFrom t) = Some []"
| "selections (Select q c) = map_option (\<lambda>cs. cs @ [c]) (selections q)"
| "selections (SelectAll q) = None"
| "selections (Where q c opr v) = selections q"

definition project :: "string list option \<Rightarrow> row \<Rightarrow> row" where
  "project cs r =
     (case cs of None \<Rightarrow> r | Some names \<Rightarrow> filter (\<lambda>kv. fst kv \<in> set names) r)"

fun holds :: "database \<Rightarrow> row \<Rightarrow> sqlValue \<Rightarrow> string \<Rightarrow> sqlValue operand \<Rightarrow> bool"
and matchingRows :: "database \<Rightarrow> row \<Rightarrow> sqlValue query \<Rightarrow> row list" where
  "holds db scope v opr (Expr e) =
     (opr = ''='' \<and> v \<noteq> Null \<and> v = expressionValue scope e)"
| "holds db scope v opr (Subquery s) =
     (opr = ''in'' \<and> v \<noteq> Null \<and>
      v \<in> set (concat (map (\<lambda>r. map snd (project (selections s) r)) (matchingRows db scope s))))"
| "matchingRows db scope (SelectFrom t) = (case map_of db t of None \<Rightarrow> [] | Some rs \<Rightarrow> rs)"
| "matchingRows db scope (Select q c) = matchingRows db scope q"
| "matchingRows db scope (SelectAll q) = matchingRows db scope q"
| "matchingRows db scope (Where q c opr v) =
     filter (\<lambda>r. holds db (r @ scope) (columnValue (r @ scope) c) opr v)
       (matchingRows db scope q)"

definition runQuery :: "database \<Rightarrow> row \<Rightarrow> sqlValue query \<Rightarrow> row list" where
  "runQuery db parent q = map (project (selections q)) (matchingRows db parent q)"

definition alice :: row where
  "alice = [(''users.id'', Num 1), (''users.name'', Text ''Alice'')]"

definition bob :: row where
  "bob = [(''users.id'', Num 2), (''users.name'', Text ''Bob'')]"

definition bobProfile :: row where
  "bobProfile =
     [(''profiles.id'', Num 1), (''profiles.user_id'', Num 2), (''profiles.bio'', Text ''bio'')]"

definition post1 :: row where
  "post1 = [(''posts.id'', Num 1), (''posts.user_id'', Num 2), (''posts.title'', Text ''America'')]"

definition post2 :: row where
  "post2 = [(''posts.id'', Num 2), (''posts.user_id'', Num 2), (''posts.title'', Text ''Europe'')]"

definition post3 :: row where
  "post3 = [(''posts.id'', Num 3), (''posts.user_id'', Num 2), (''posts.title'', Text ''Asia'')]"

definition tag1 :: row where
  "tag1 = [(''tags.id'', Num 1), (''tags.name'', Text ''news'')]"

definition tag2 :: row where
  "tag2 = [(''tags.id'', Num 2), (''tags.name'', Text ''sport'')]"

definition tag3 :: row where
  "tag3 = [(''tags.id'', Num 3), (''tags.name'', Text ''travel'')]"

definition blog :: database where
  "blog =
     [(''users'', [alice, bob]),
      (''profiles'', [bobProfile]),
      (''posts'', [post1, post2, post3]),
      (''tags'', [tag1, tag2, tag3]),
      (''post_tags'',
        [[(''post_tags.id'', Num 1), (''post_tags.post_id'', Num 1), (''post_tags.tag_id'', Num 1)],
         [(''post_tags.id'', Num 2), (''post_tags.post_id'', Num 1), (''post_tags.tag_id'', Num 3)]])]"

definition profileConfig :: relationConfig where
  "profileConfig =
     \<lparr>target = ''profiles'', column = ''users.id'', reference = ''profiles.user_id''\<rparr>"

definition postsConfig :: relationConfig where
  "postsConfig =
     \<lparr>target = ''posts'', column = ''users.id'', reference = ''posts.user_id''\<rparr>"

definition tagsConfig :: throughRelationConfig where
  "tagsConfig =
     \<lparr>target = ''tags'', column = ''posts.id'', reference = ''tags.id'',
      through = ''post_tags'', throughColumn = ''post_tags.post_id'',
      throughReference = ''post_tags.tag_id''\<rparr>"

section \<open>Properties of the resolver\<close>

text \<open>
  C1. For every relation configuration and every optional customize function, the simple
  resolver selects from \<open>config.target\<close>, applies the customize function to that base query
  when one is given and leaves the base query as it is otherwise, and the function it
  returns maps a correlation expression to the base query filtered by
  \<open>config.reference = expression\<close>.
\<close>

theorem relationQueryFactory_correlates:
  "relationQueryFactory config None expression =
     Where (SelectFrom (target config)) (reference config) ''='' (Expr expression)
   \<and> relationQueryFactory config (Some customize) expression =
     Where (customize (SelectFrom (target config))) (reference config) ''='' (Expr expression)"
  by (simp add: relationQueryFactory_def)

text \<open>
  C2. For every through-relation configuration and every optional customize function, the
  through resolver builds the target base query as the simple resolver does and, apart
  from it, a junction sub-query selecting \<open>config.throughReference\<close> from
  \<open>config.through\<close>; the function it returns maps a correlation expression to the target
  base query filtered by \<open>config.reference in\<close> the junction sub-query filtered by
  \<open>config.throughColumn = expression\<close>.
\<close>

theorem throughRelationQueryFactory_membership:
  "throughRelationQueryFactory config None expression =
     Where (SelectFrom (target config)) (reference config) ''in''
       (Subquery
         (Where (Select (SelectFrom (through config)) (throughReference config))
            (throughColumn config) ''='' (Expr expression)))
   \<and> throughRelationQueryFactory config (Some customize) expression =
     Where (customize (SelectFrom (target config))) (reference config) ''in''
       (Subquery
         (Where (Select (SelectFrom (through config)) (throughReference config))
            (throughColumn config) ''='' (Expr expression)))"
  by (simp add: throughRelationQueryFactory_def)

text \<open>
  C7. The junction sub-query of the through resolver does not depend on the customize
  function: it is the same with and without one. The customize function is applied once,
  to the query selecting from the target table, and the correlating filter is added to
  its result afterwards.
\<close>

theorem customize_leaves_junction:
  "junctionQuery (throughRelationQueryFactory config customizeQuery expression) =
     Some (Where (Select (SelectFrom (through config)) (throughReference config))
             (throughColumn config) ''='' (Expr expression))
   \<and> junctionQuery (throughRelationQueryFactory config (Some customize) expression) =
     junctionQuery (throughRelationQueryFactory config None expression)
   \<and> filteredQuery (throughRelationQueryFactory config (Some customize) expression) =
     Some (customize (SelectFrom (target config)))"
  by (simp add: throughRelationQueryFactory_def)




section \<open>Properties of the compiler\<close>

lemma hasOne_unfold:
  "hasOne relationName config customizeQuery selectFunc eb =
     As (JsonObjectFrom
          (selectFunc (relationQueryFactory config customizeQuery (SqlRef (column config)))))
        relationName"
  by (simp add: hasOne_def)

lemma hasOneNotNull_unfold:
  "hasOneNotNull relationName config customizeQuery selectFunc eb =
     As (JsonObjectFrom
          (selectFunc (relationQueryFactory config customizeQuery (SqlRef (column config)))))
        relationName"
  by (simp add: hasOneNotNull_def)

lemma hasMany_unfold:
  "hasMany relationName config customizeQuery selectFunc eb =
     As (JsonArrayFrom
          (selectFunc (relationQueryFactory config customizeQuery (SqlRef (column config)))))
        relationName"
  by (simp add: hasMany_def)

lemma hasManyThrough_unfold:
  "hasManyThrough relationName config customizeQuery selectFunc eb =
     As (JsonArrayFrom
          (selectFunc (throughRelationQueryFactory config customizeQuery (SqlRef (column config)))))
        relationName"
  by (simp add: hasManyThrough_def)

text \<open>
  C3. \<open>hasOne\<close> and \<open>hasOneNotNull\<close> resolve with the simple resolver and wrap the
  selector's result in the JSON object aggregate; \<open>hasMany\<close> resolves with the simple
  resolver and \<open>hasManyThrough\<close> with the through resolver, and both wrap the selector's
  result in the JSON array aggregate. In all four the aggregate is aliased to the relation
  name.
\<close>

theorem relation_kinds_dispatch:
  "hasOne relationName config customizeQuery selectFunc eb =
     As (JsonObjectFrom
          (selectFunc (relationQueryFactory config customizeQuery (SqlRef (column config)))))
        relationName
   \<and> hasOneNotNull relationName config customizeQuery selectFunc eb =
     As (JsonObjectFrom
          (selectFunc (relationQueryFactory config customizeQuery (SqlRef (column config)))))
        relationName
   \<and> hasMany relationName config customizeQuery selectFunc eb =
     As (JsonArrayFrom
          (selectFunc (relationQueryFactory config customizeQuery (SqlRef (column config)))))
        relationName
   \<and> hasManyThrough relationName throughConfig customizeQuery selectFunc eb =
     As (JsonArrayFrom
          (selectFunc
            (throughRelationQueryFactory throughConfig customizeQuery
              (SqlRef (column throughConfig)))))
        relationName"
  by (simp add: hasOne_def hasOneNotNull_def hasMany_def hasManyThrough_def)



text \<open>
  C8. With a pure customize function and a pure selector, neither compiling nor invoking
  a relation writes the program's state, which comes back as it went in, or reads it: the
  expression returned is the same in every state. It is the same for any two contexts too,
  so two invocations with equivalent contexts return the same expression.
\<close>

theorem compiled_relation_pure:
  "snd (hasOne_st relationName config (map_option pureCallback customizeQuery) w) = w
   \<and> fst (hasOne_st relationName config (map_option pureCallback customizeQuery) w)
         (pureCallback selectFunc) eb1 w1
       = (hasOne relationName config customizeQuery selectFunc eb2, w1)
   \<and> snd (hasOneNotNull_st relationName config (map_option pureCallback customizeQuery) w) = w
   \<and> fst (hasOneNotNull_st relationName config (map_option pureCallback customizeQuery) w)
         (pureCallback selectFunc) eb1 w1
       = (hasOneNotNull relationName config customizeQuery selectFunc eb2, w1)
   \<and> snd (hasMany_st relationName config (map_option pureCallback customizeQuery) w) = w
   \<and> fst (hasMany_st relationName config (map_option pureCallback customizeQuery) w)
         (pureCallback selectFunc) eb1 w1
       = (hasMany relationName config customizeQuery selectFunc eb2, w1)
   \<and> snd (hasManyThrough_st relationName throughConfig (map_option pureCallback customizeQuery) w) = w
   \<and> fst (hasManyThrough_st relationName throughConfig (map_option pureCallback customizeQuery) w)
         (pureCallback selectFunc) eb1 w1
       = (hasManyThrough relationName throughConfig customizeQuery selectFunc eb2, w1)
   \<and> hasOne relationName config customizeQuery selectFunc eb1 =
       hasOne relationName config customizeQuery selectFunc eb2
   \<and> hasOneNotNull relationName config customizeQuery selectFunc eb1 =
       hasOneNotNull relationName config customizeQuery selectFunc eb2
   \<and> hasMany relationName config customizeQuery selectFunc eb1 =
       hasMany relationName config customizeQuery selectFunc eb2
   \<and> hasManyThrough relationName throughConfig customizeQuery selectFunc eb1 =
       hasManyThrough relationName throughConfig customizeQuery selectFunc eb2"
  by (cases customizeQuery)
    (simp_all add: hasOne_st_def hasOneNotNull_st_def hasMany_st_def hasManyThrough_st_def
      relationQueryFactory_st_def throughRelationQueryFactory_st_def pureCallback_def
      hasOne_def hasOneNotNull_def hasMany_def hasManyThrough_def
      relationQueryFactory_def throughRelationQueryFactory_def)

text \<open>
  C10. The declaration entry point ignores the table name: for any two table names and
  any declaration function the results are equal, namely the declaration function applied
  to the record of the four relation constructors.
\<close>

theorem createRelationsBuilder_ignores_table:
  "createRelationsBuilder () t1 relationBuilder = createRelationsBuilder () t2 relationBuilder
   \<and> createRelationsBuilder () t1 relationBuilder =
     relationBuilder
       \<lparr>fn_hasOne = hasOne, fn_hasOneNotNull = hasOneNotNull,
        fn_hasMany = hasMany, fn_hasManyThrough = hasManyThrough\<rparr>"
  by (simp add: createRelationsBuilder_def relations_def)

section \<open>Values of compiled relations\<close>

lemma alice_profile:
  "runQuery blog alice
     (SelectAll (relationQueryFactory profileConfig None (SqlRef (column profileConfig)))) = []"
  by code_simp

lemma bob_profile:
  "runQuery blog bob
     (SelectAll (relationQueryFactory profileConfig None (SqlRef (column profileConfig))))
   = [bobProfile]"
  by code_simp

lemma alice_posts:
  "runQuery blog alice
     (SelectAll (relationQueryFactory postsConfig None (SqlRef (column postsConfig)))) = []"
  by code_simp

lemma bob_posts:
  "runQuery blog bob
     (SelectAll (relationQueryFactory postsConfig None (SqlRef (column postsConfig))))
   = [post1, post2, post3]"
  by code_simp

lemma post1_tags:
  "runQuery blog post1
     (SelectAll (throughRelationQueryFactory tagsConfig None (SqlRef (column tagsConfig))))
   = [tag1, tag3]"
  by code_simp

lemma post2_tags:
  "runQuery blog post2
     (SelectAll (throughRelationQueryFactory tagsConfig None (SqlRef (column tagsConfig)))) = []"
  by code_simp

text \<open>
  C4. Whatever the engine: when the selected, correlated sub-query of a \<open>hasOne\<close> or
  \<open>hasOneNotNull\<close> relation returns no row the value is null, and when it returns one row
  the value is that row as selected; the value of a \<open>hasMany\<close> or \<open>hasManyThrough\<close>
  relation is the array of the rows the sub-query returns, in the order the engine returns
  them, and the empty array when it returns none. The value comes under the relation name.
\<close>

theorem aggregate_values:
  "(rowsOf (selectFunc (relationQueryFactory config customizeQuery (SqlRef (column config)))) = []
      \<longrightarrow> relationValue rowsOf (hasOne relationName config customizeQuery selectFunc eb)
            = (relationName, JsonNull)
        \<and> relationValue rowsOf (hasOneNotNull relationName config customizeQuery selectFunc eb)
            = (relationName, JsonNull))
   \<and> (rowsOf (selectFunc (relationQueryFactory config customizeQuery (SqlRef (column config)))) = [r]
      \<longrightarrow> relationValue rowsOf (hasOne relationName config customizeQuery selectFunc eb)
            = (relationName, JsonObject r)
        \<and> relationValue rowsOf (hasOneNotNull relationName config customizeQuery selectFunc eb)
            = (relationName, JsonObject r))
   \<and> relationValue rowsOf (hasMany relationName config customizeQuery selectFunc eb)
        = (relationName,
           JsonArray
             (rowsOf (selectFunc (relationQueryFactory config customizeQuery (SqlRef (column config))))))
   \<and> relationValue rowsOf (hasManyThrough relationName throughConfig customizeQuery selectFunc eb)
        = (relationName,
           JsonArray
             (rowsOf (selectFunc
               (throughRelationQueryFactory throughConfig customizeQuery
                 (SqlRef (column throughConfig))))))
   \<and> (rowsOf (selectFunc (relationQueryFactory config customizeQuery (SqlRef (column config)))) = []
      \<longrightarrow> relationValue rowsOf (hasMany relationName config customizeQuery selectFunc eb)
            = (relationName, JsonArray []))
   \<and> (rowsOf (selectFunc
         (throughRelationQueryFactory throughConfig customizeQuery (SqlRef (column throughConfig))))
       = []
      \<longrightarrow> relationValue rowsOf (hasManyThrough relationName throughConfig customizeQuery selectFunc eb)
            = (relationName, JsonArray []))"
  by (simp add: hasOne_unfold hasOneNotNull_unfold hasMany_unfold hasManyThrough_unfold)

text \<open>
  C4 on the example data: Alice has no profile and no post, Bob has one profile and three
  posts, the first post has the first and the third of the three tags, the second post
  has none.
\<close>

theorem aggregate_values_witness:
  "runQuery blog alice
     (SelectAll (relationQueryFactory profileConfig None (SqlRef (column profileConfig)))) = []
   \<and> relationValue (runQuery blog alice) (hasOne ''profile'' profileConfig None SelectAll ())
       = (''profile'', JsonNull)
   \<and> relationValue (runQuery blog alice) (hasOneNotNull ''profile'' profileConfig None SelectAll ())
       = (''profile'', JsonNull)
   \<and> runQuery blog bob
     (SelectAll (relationQueryFactory profileConfig None (SqlRef (column profileConfig))))
       = [bobProfile]
   \<and> relationValue (runQuery blog bob) (hasOne ''profile'' profileConfig None SelectAll ())
       = (''profile'', JsonObject bobProfile)
   \<and> relationValue (runQuery blog bob) (hasOneNotNull ''profile'' profileConfig None SelectAll ())
       = (''profile'', JsonObject bobProfile)
   \<and> relationValue (runQuery blog alice) (hasMany ''posts'' postsConfig None SelectAll ())
       = (''posts'', JsonArray [])
   \<and> relationValue (runQuery blog bob) (hasMany ''posts'' postsConfig None SelectAll ())
       = (''posts'', JsonArray [post1, post2, post3])
   \<and> relationValue (runQuery blog post2) (hasManyThrough ''tags'' tagsConfig None SelectAll ())
       = (''tags'', JsonArray [])
   \<and> relationValue (runQuery blog post1) (hasManyThrough ''tags'' tagsConfig None SelectAll ())
       = (''tags'', JsonArray [tag1, tag3])"
  using
    aggregate_values [where rowsOf = "runQuery blog alice" and selectFunc = SelectAll
      and config = profileConfig and customizeQuery = None and relationName = "''profile''"
      and eb = "()" and r = bobProfile and throughConfig = tagsConfig]
    aggregate_values [where rowsOf = "runQuery blog bob" and selectFunc = SelectAll
      and config = profileConfig and customizeQuery = None and relationName = "''profile''"
      and eb = "()" and r = bobProfile and throughConfig = tagsConfig]
    aggregate_values [where rowsOf = "runQuery blog alice" and selectFunc = SelectAll
      and config = postsConfig and customizeQuery = None and relationName = "''posts''"
      and eb = "()" and r = post1 and throughConfig = tagsConfig]
    aggregate_values [where rowsOf = "runQuery blog bob" and selectFunc = SelectAll
      and config = postsConfig and customizeQuery = None and relationName = "''posts''"
      and eb = "()" and r = post1 and throughConfig = tagsConfig]
    aggregate_values [where rowsOf = "runQuery blog post2" and selectFunc = SelectAll
      and config = postsConfig and customizeQuery = None and relationName = "''tags''"
      and eb = "()" and r = post1 and throughConfig = tagsConfig]
    aggregate_values [where rowsOf = "runQuery blog post1" and selectFunc = SelectAll
      and config = postsConfig and customizeQuery = None and relationName = "''tags''"
      and eb = "()" and r = post1 and throughConfig = tagsConfig]
  by (simp add: alice_profile bob_profile alice_posts bob_posts post1_tags post2_tags)

text \<open>
  C6. The relation \<open>hasOneNotNull\<close> compiles is the one \<open>hasOne\<close> compiles from the same
  arguments: the two constructors are equal as functions. So \<open>hasOneNotNull\<close> also yields
  null when the sub-query returns no row.
\<close>

theorem hasOneNotNull_is_hasOne:
  "hasOneNotNull relationName config customizeQuery = hasOne relationName config customizeQuery
   \<and> (rowsOf (selectFunc (relationQueryFactory config customizeQuery (SqlRef (column config)))) = []
        \<longrightarrow> relationValue rowsOf (hasOneNotNull relationName config customizeQuery selectFunc eb)
            = (relationName, JsonNull))"
  by (simp add: hasOneNotNull_def hasOne_def)

text \<open>
  C6 on the example data: Alice has no profile, and her \<open>hasOneNotNull\<close> profile is null.
\<close>

theorem hasOneNotNull_is_hasOne_witness:
  "hasOneNotNull ''profile'' profileConfig (None :: sqlValue customizeQueryFunction option)
     = (hasOne ''profile'' profileConfig None ::
          sqlValue selectFunction \<Rightarrow> unit \<Rightarrow> sqlValue aliased)
   \<and> runQuery blog alice
     (SelectAll (relationQueryFactory profileConfig None (SqlRef (column profileConfig)))) = []
   \<and> relationValue (runQuery blog alice) (hasOneNotNull ''profile'' profileConfig None SelectAll ())
       = (''profile'', JsonNull)"
  using
    hasOneNotNull_is_hasOne [where rowsOf = "runQuery blog alice" and selectFunc = SelectAll
      and config = profileConfig and customizeQuery = None and relationName = "''profile''"
      and eb = "()"]
  by (simp add: alice_profile)

end
